theory Spec2Isabelle
  imports Main
begin

section \<open>Quick-action resolution in \<open>compositional-patterns-reference.jsx\<close>\<close>

text \<open>
  The development embeds two components of the file: \<open>CurrentQuickActionsMenu\<close>
  (lines 366-411) with its inner function \<open>getActionButtons\<close>, and the component made by
  \<open>createQuickActionsComponent\<close> (lines 260-272). Hooks are read-only context, so they are
  an argument; exceptions are values of a sum type; a JSX expression is the element record
  that \<open>React.createElement\<close> builds.
\<close>

subsection \<open>Data\<close>

text \<open>
  Modelled from the spec: the constants \<open>TEMPLATE_TYPE_AE_PROJ\<close> and
  \<open>TEMPLATE_TYPE_PPRO_PROJ\<close> are imported from
  \<open>@astock/stock-graphql-search/constants\<close>, which is not part of the sources. Section 3 of
  the spec gives the type as an open enumeration with the two project-file types and
  \<open>OTHER\<close>; \<open>Unrecognized n\<close> stands for any further value.
\<close>

datatype template_type =
    TEMPLATE_TYPE_AE_PROJ
  | TEMPLATE_TYPE_PPRO_PROJ
  | OTHER
  | Unrecognized nat

text \<open>An item is an object with at least the field \<open>templateTypeId\<close> (an extensible record).\<close>

record item =
  templateTypeId :: template_type

text \<open>
  The configuration object. \<open>None\<close> in the field is a property that is missing,
  \<open>undefined\<close> or \<open>null\<close>: \<open>?? false\<close> (line 368) maps all three to \<open>false\<close>, and the
  default \<open>= false\<close> of line 261 maps the first two to \<open>false\<close> and leaves \<open>null\<close>, which
  \<open>!\<close> negates to \<open>true\<close> as it does \<open>false\<close>.
\<close>

record config =
  disableLibraryFeatures :: "bool option"

text \<open>
  A resolved flag \<open>{ value }\<close>, an object as in the spec's data model; \<open>None\<close> is a
  missing or \<open>undefined\<close> value.
\<close>

record flag =
  flag_value :: "bool option"

type_synonym feature_flags = "string \<rightharpoonup> flag"

text \<open>
  What the two hooks return in the rendering context: \<open>useConfig()\<close> may give no
  configuration at all, \<open>useFeatureFlags()\<close> gives the flag object.
\<close>

record hooks =
  useConfig :: "config option"
  useFeatureFlags :: feature_flags

text \<open>
  Modelled from the spec: the components \<open>SaveToLibraryButton\<close>, \<open>EditButton\<close> and
  \<open>EditHoverButton\<close> stand in tag position in every pattern of the file, but no source file
  declares or imports them. The spec (sections 1 and 3) takes them as the host
  application's renderers of the action kinds, so they are names here; \<open>Component n\<close> is any
  other component a caller may pass in.
\<close>

datatype component =
    SaveToLibraryButton
  | EditButton
  | EditHoverButton
  | Component string

datatype error =
    TypeError
  | ReferenceError string

text \<open>A React element: its type, its key (if the JSX gives one) and its named props.\<close>

record 'p element =
  elem_type :: component
  key :: "string option"
  props :: "(string \<times> 'p) list"

text \<open>
  What a component renders: \<open>false\<close> (from \<open>cond && <X/>\<close>), a component element, or a
  \<open>div\<close> with a class name and children.
\<close>

datatype 'p node =
    NFalse
  | NElement "'p element"
  | NDiv string "'p node list"

text \<open>
  The props of \<open>CurrentQuickActionsMenu\<close>. \<open>item = None\<close> is a \<open>null\<close> or missing item;
  \<open>editHoverButton = None\<close> is the default \<open>null\<close> of line 366.
\<close>

record 'p menu_props =
  item :: "'p option"
  editHoverButton :: "component option"

subsection \<open>Feature flags\<close>

text \<open>
  Modelled from the spec: the flag objects \<open>isEditHoverButtonInTimelineEnabledFF\<close> and
  \<open>isTimelineSingleAssetEditorEnabledFF\<close> are imported from
  \<open>@astock/stock-feature-flags\<close>, which is not part of the sources. Section 6 of the spec
  gives their \<open>id\<close>s.
\<close>

definition isEditHoverButtonInTimelineEnabledFF_id :: string where
  "isEditHoverButtonInTimelineEnabledFF_id = ''edit-hover-button-in-timeline''"

definition isTimelineSingleAssetEditorEnabledFF_id :: string where
  "isTimelineSingleAssetEditorEnabledFF_id = ''timeline-single-asset-editor''"

text \<open>
  One entry of the destructuring pattern of lines 370-377,
  \<open>[id]: { value: x = false } = {}\<close>: a missing entry is replaced by \<open>{}\<close>, and a missing
  \<open>value\<close> by \<open>false\<close>.
\<close>

definition flag_enabled :: "feature_flags \<Rightarrow> string \<Rightarrow> bool" where
  "flag_enabled flags fid =
     (case flags fid of
        None \<Rightarrow> False
      | Some f \<Rightarrow> (case flag_value f of None \<Rightarrow> False | Some b \<Rightarrow> b))"

subsection \<open>\<open>CurrentQuickActionsMenu\<close>\<close>

text \<open>Line 368: \<open>config?.disableLibraryFeatures ?? false\<close>.\<close>

definition disableLibraryFeatures_or_false :: "config option \<Rightarrow> bool" where
  "disableLibraryFeatures_or_false cfg =
     (case cfg of
        None \<Rightarrow> False
      | Some c \<Rightarrow> (case disableLibraryFeatures c of None \<Rightarrow> False | Some b \<Rightarrow> b))"

text \<open>Lines 379-381.\<close>

definition showSaveToLibraryButton :: "config option \<Rightarrow> 'a item_scheme \<Rightarrow> bool" where
  "showSaveToLibraryButton cfg it =
     (\<not> disableLibraryFeatures_or_false cfg
      \<and> templateTypeId it \<notin> set [TEMPLATE_TYPE_AE_PROJ, TEMPLATE_TYPE_PPRO_PROJ])"

text \<open>
  The identifier \<open>transformedAsset\<close> of line 394. No parameter, declaration or import of the
  file binds it, so evaluating it raises a \<open>ReferenceError\<close>.
\<close>

definition transformedAsset :: "error + 'p" where
  "transformedAsset = Inl (ReferenceError ''transformedAsset'')"

text \<open>
  Lines 383-398. The function is a closure; its free variables are arguments here, in the
  order \<open>showSaveToLibraryButton\<close>, \<open>isTimelineSingleAssetEditorEnabled\<close>,
  \<open>isEditHoverButtonInTimelineEnabled\<close>, \<open>SingleAssetEditHoverButton\<close>, \<open>item\<close> and what
  evaluating \<open>transformedAsset\<close> gives. \<open>buttons\<close> is the array being pushed to. A
  component is truthy and \<open>null\<close> is not, so the first condition holds when the flag is set
  and a component was passed. An exception raised while the hover element is built leaves
  the function without a return value.
\<close>

definition getActionButtons ::
  "bool \<Rightarrow> bool \<Rightarrow> bool \<Rightarrow> component option \<Rightarrow> 'p \<Rightarrow> error + 'p \<Rightarrow> error + 'p element list"
where
  "getActionButtons showSaveToLibrary isTimelineSingleAssetEditorEnabled
       isEditHoverButtonInTimelineEnabled SingleAssetEditHoverButton it asset =
     (let buttons = [];
          buttons =
            (if showSaveToLibrary
             then buttons @ [\<lparr>elem_type = SaveToLibraryButton, key = Some ''save-to-library'',
                               props = [(''item'', it)]\<rparr>]
             else buttons)
      in case (if isTimelineSingleAssetEditorEnabled then SingleAssetEditHoverButton else None) of
           Some c \<Rightarrow>
             Inr (buttons @ [\<lparr>elem_type = c, key = Some ''single-asset-edit'',
                               props = [(''item'', it)]\<rparr>])
         | None \<Rightarrow>
             if \<not> isTimelineSingleAssetEditorEnabled \<and> isEditHoverButtonInTimelineEnabled
             then (case asset of
                     Inl e \<Rightarrow> Inl e
                   | Inr a \<Rightarrow>
                       Inr (buttons @ [\<lparr>elem_type = EditHoverButton, key = Some ''edit-hover'',
                                         props = [(''asset'', a)]\<rparr>]))
             else Inr buttons)"

text \<open>
  Lines 366-400: the value of \<open>actionButtons\<close>. Destructuring a \<open>null\<close> item (line 379)
  raises a \<open>TypeError\<close>, after the hooks have been read.
\<close>

definition actionButtons ::
  "hooks \<Rightarrow> ('a item_scheme) menu_props \<Rightarrow> error + ('a item_scheme) element list"
where
  "actionButtons h p =
     (let cfg = useConfig h;
          flags = useFeatureFlags h;
          isEditHoverButtonInTimelineEnabled =
            flag_enabled flags isEditHoverButtonInTimelineEnabledFF_id;
          isTimelineSingleAssetEditorEnabled =
            flag_enabled flags isTimelineSingleAssetEditorEnabledFF_id
      in case item p of
           None \<Rightarrow> Inl TypeError
         | Some it \<Rightarrow>
             getActionButtons (showSaveToLibraryButton cfg it)
               isTimelineSingleAssetEditorEnabled isEditHoverButtonInTimelineEnabled
               (editHoverButton p) it transformedAsset)"

text \<open>
  Lines 400-410: \<open>None\<close> is the \<open>null\<close> returned for an empty list; otherwise the buttons
  are the children of the wrapper.
\<close>

definition CurrentQuickActionsMenu ::
  "hooks \<Rightarrow> ('a item_scheme) menu_props \<Rightarrow> error + ('a item_scheme) node option"
where
  "CurrentQuickActionsMenu h p =
     (case actionButtons h p of
        Inl e \<Rightarrow> Inl e
      | Inr bs \<Rightarrow>
          if length bs = 0 then Inr None
          else Inr (Some (NDiv ''quick-actions-wrapper'' (map NElement bs))))"

subsection \<open>\<open>createQuickActionsComponent\<close>\<close>

text \<open>Lines 261-264, for a configuration object.\<close>

definition showSave :: "config \<Rightarrow> 'a item_scheme \<Rightarrow> bool" where
  "showSave c it =
     (let disabled = (case disableLibraryFeatures c of None \<Rightarrow> False | Some b \<Rightarrow> b)
      in \<not> disabled
         \<and> templateTypeId it \<notin> set [TEMPLATE_TYPE_AE_PROJ, TEMPLATE_TYPE_PPRO_PROJ])"

text \<open>
  Lines 260-272: the component made for \<open>config\<close>, applied to its \<open>item\<close> prop.
  Destructuring a \<open>null\<close> or \<open>undefined\<close> configuration (line 261) or item (line 262)
  raises a \<open>TypeError\<close>.
\<close>

definition createQuickActionsComponent ::
  "config option \<Rightarrow> ('a item_scheme) option \<Rightarrow> error + ('a item_scheme) node"
where
  "createQuickActionsComponent cfg item_prop =
     (case cfg of
        None \<Rightarrow> Inl TypeError
      | Some c \<Rightarrow>
          (case item_prop of
             None \<Rightarrow> Inl TypeError
           | Some it \<Rightarrow>
               Inr (NDiv ''quick-actions''
                 [if showSave c it
                  then NElement \<lparr>elem_type = SaveToLibraryButton, key = None,
                                  props = [(''item'', it)]\<rparr>
                  else NFalse,
                  NElement \<lparr>elem_type = EditButton, key = None,
                            props = [(''item'', it)]\<rparr>])))"

subsection \<open>The spec's vocabulary\<close>

text \<open>
  The spec of the resolver speaks of descriptors with a kind. The code has none: each of
  its three \<open>push\<close> sites gives the element a literal key, and a descriptor's kind is read
  off that key.
\<close>

datatype kind =
    SAVE_TO_LIBRARY
  | EDIT
  | EDIT_HOVER_TIMELINE

definition kind_of :: "'p element \<Rightarrow> kind option" where
  "kind_of e =
     (if key e = Some ''save-to-library'' then Some SAVE_TO_LIBRARY
      else if key e = Some ''single-asset-edit'' then Some EDIT
      else if key e = Some ''edit-hover'' then Some EDIT_HOVER_TIMELINE
      else None)"

fun kinds :: "'p element list \<Rightarrow> kind list" where
  "kinds [] = []"
| "kinds (e # es) = (case kind_of e of None \<Rightarrow> kinds es | Some k \<Rightarrow> k # kinds es)"

text \<open>The kinds of the resolved list, in order, or the exception raised.\<close>

definition resolved_kinds :: "hooks \<Rightarrow> ('a item_scheme) menu_props \<Rightarrow> error + kind list" where
  "resolved_kinds h p =
     (case actionButtons h p of Inl e \<Rightarrow> Inl e | Inr bs \<Rightarrow> Inr (kinds bs))"

text \<open>
  The save rule in the spec's words (section 4.1, step 1), on the resolved
  \<open>disableLibraryFeatures\<close> and the item's template type.
\<close>

definition saveEligible :: "bool \<Rightarrow> template_type \<Rightarrow> bool" where
  "saveEligible disabled t =
     (\<not> disabled \<and> t \<noteq> TEMPLATE_TYPE_AE_PROJ \<and> t \<noteq> TEMPLATE_TYPE_PPRO_PROJ)"

subsection \<open>The inputs of the spec's scenarios\<close>

definition flag_on :: flag where
  "flag_on = \<lparr>flag_value = Some True\<rparr>"

definition flag_off :: flag where
  "flag_off = \<lparr>flag_value = Some False\<rparr>"

definition library_enabled :: config where
  "library_enabled = \<lparr>disableLibraryFeatures = Some False\<rparr>"

definition library_disabled :: config where
  "library_disabled = \<lparr>disableLibraryFeatures = Some True\<rparr>"

definition item_other :: item where
  "item_other = \<lparr>templateTypeId = OTHER\<rparr>"

definition item_ae :: item where
  "item_ae = \<lparr>templateTypeId = TEMPLATE_TYPE_AE_PROJ\<rparr>"

definition no_flags :: feature_flags where
  "no_flags = Map.empty"

definition hover_flag_only :: feature_flags where
  "hover_flag_only = [isEditHoverButtonInTimelineEnabledFF_id \<mapsto> flag_on]"

definition both_flags :: feature_flags where
  "both_flags =
     [isTimelineSingleAssetEditorEnabledFF_id \<mapsto> flag_on,
      isEditHoverButtonInTimelineEnabledFF_id \<mapsto> flag_on]"

text \<open>A specialized editor that an embedding context passes as \<open>editHoverButton\<close>.\<close>

definition single_asset_editor :: component where
  "single_asset_editor = Component ''SingleAssetEditHoverButton''"

section \<open>Properties\<close>

subsection \<open>Auxiliary facts\<close>

lemma kinds_append: "kinds (xs @ ys) = kinds xs @ kinds ys"
  by (induction xs) (auto split: option.splits)

lemma flag_ids_distinct:
  "isTimelineSingleAssetEditorEnabledFF_id \<noteq> isEditHoverButtonInTimelineEnabledFF_id"
  by (simp add: isTimelineSingleAssetEditorEnabledFF_id_def isEditHoverButtonInTimelineEnabledFF_id_def)

lemma showSaveToLibraryButton_iff:
  "showSaveToLibraryButton cfg it =
     saveEligible (disableLibraryFeatures_or_false cfg) (templateTypeId it)"
  by (auto simp: showSaveToLibraryButton_def saveEligible_def)

lemma actionButtons_Some:
  "item p = Some it \<Longrightarrow>
   actionButtons h p =
     getActionButtons (showSaveToLibraryButton (useConfig h) it)
       (flag_enabled (useFeatureFlags h) isTimelineSingleAssetEditorEnabledFF_id)
       (flag_enabled (useFeatureFlags h) isEditHoverButtonInTimelineEnabledFF_id)
       (editHoverButton p) it transformedAsset"
  by (simp add: actionButtons_def Let_def)

lemma getActionButtons_no_hover:
  "getActionButtons s single False r it asset =
     Inr ((if s then [\<lparr>elem_type = SaveToLibraryButton, key = Some ''save-to-library'',
                        props = [(''item'', it)]\<rparr>] else [])
          @ (case (if single then r else None) of
               None \<Rightarrow> []
             | Some c \<Rightarrow> [\<lparr>elem_type = c, key = Some ''single-asset-edit'',
                             props = [(''item'', it)]\<rparr>]))"
  by (simp add: getActionButtons_def Let_def split: option.splits)

lemma getActionButtons_exclusive:
  "getActionButtons s single hover r it asset = Inr bs \<Longrightarrow>
     \<not> (EDIT \<in> set (kinds bs) \<and> EDIT_HOVER_TIMELINE \<in> set (kinds bs))"
  by (auto simp: getActionButtons_def kind_of_def Let_def split: if_splits option.splits sum.splits)

lemma getActionButtons_save_iff:
  "getActionButtons s single hover r it asset = Inr bs \<Longrightarrow>
     SAVE_TO_LIBRARY \<in> set (kinds bs) \<longleftrightarrow> s"
  by (auto simp: getActionButtons_def kind_of_def Let_def split: if_splits option.splits sum.splits)

lemma getActionButtons_save_first:
  "getActionButtons s single hover r it asset = Inr bs \<Longrightarrow> SAVE_TO_LIBRARY \<in> set (kinds bs) \<Longrightarrow>
     (\<exists>rest. bs = \<lparr>elem_type = SaveToLibraryButton, key = Some ''save-to-library'', props = [(''item'', it)]\<rparr> # rest
        \<and> SAVE_TO_LIBRARY \<notin> set (kinds rest))"
  by (auto simp: getActionButtons_def kind_of_def Let_def split: if_splits option.splits sum.splits)

lemma save_descriptor_iff_eligible:
  assumes "actionButtons h p = Inr bs" and "item p = Some it"
  shows "SAVE_TO_LIBRARY \<in> set (kinds bs) \<longleftrightarrow>
         saveEligible (disableLibraryFeatures_or_false (useConfig h)) (templateTypeId it)"
  using assms getActionButtons_save_iff
  by (fastforce simp: actionButtons_Some showSaveToLibraryButton_iff)

lemma flag_enabled_absent_upd:
  "flags fid = None \<Longrightarrow> flag_enabled (flags(fid \<mapsto> flag_off)) k = flag_enabled flags k"
  by (simp add: flag_enabled_def flag_off_def)

lemma scenario_A_buttons:
  "actionButtons \<lparr>useConfig = Some library_enabled, useFeatureFlags = no_flags\<rparr>
     \<lparr>item = Some item_other, editHoverButton = None\<rparr> =
   Inr [\<lparr>elem_type = SaveToLibraryButton, key = Some ''save-to-library'', props = [(''item'', item_other)]\<rparr>]"
  by (simp add: actionButtons_def getActionButtons_def flag_enabled_def no_flags_def
      showSaveToLibraryButton_def disableLibraryFeatures_or_false_def library_enabled_def
      item_other_def)

lemma scenario_E_buttons:
  "actionButtons \<lparr>useConfig = Some library_disabled, useFeatureFlags = no_flags\<rparr>
     \<lparr>item = Some item_ae, editHoverButton = None\<rparr> = Inr []"
  by (simp add: actionButtons_def getActionButtons_def flag_enabled_def no_flags_def
      showSaveToLibraryButton_def disableLibraryFeatures_or_false_def library_disabled_def
      item_ae_def)

subsection \<open>Save to library\<close>

text \<open>
  Claim C1: for every configuration, flag set and item the resolved list holds a
  \<open>SAVE_TO_LIBRARY\<close> descriptor exactly when library features are not disabled and the
  item is not a project file. The code falls short of it on one branch: with library
  features enabled, an item of type \<open>OTHER\<close>, the hover flag set and the single-asset
  flag off, the item is save-eligible and the save button is pushed, but the hover element
  that is built next refers to \<open>transformedAsset\<close>, so the call raises and no list is
  returned. (On every call that returns, \<open>save_descriptor_iff_eligible\<close> gives the
  equivalence.)
\<close>

theorem save_descriptor_lost_in_hover_branch:
  "saveEligible (disableLibraryFeatures_or_false (Some library_enabled)) (templateTypeId item_other)
   \<and> actionButtons
       \<lparr>useConfig = Some library_enabled,
        useFeatureFlags = hover_flag_only(isTimelineSingleAssetEditorEnabledFF_id \<mapsto> flag_off)\<rparr>
       \<lparr>item = Some item_other, editHoverButton = None\<rparr>
     = Inl (ReferenceError ''transformedAsset'')"
  by (simp add: saveEligible_def disableLibraryFeatures_or_false_def library_enabled_def
      item_other_def actionButtons_def getActionButtons_def flag_enabled_def hover_flag_only_def
      flag_on_def flag_off_def transformedAsset_def
      isTimelineSingleAssetEditorEnabledFF_id_def isEditHoverButtonInTimelineEnabledFF_id_def)

subsection \<open>Mutually exclusive edit kinds\<close>

text \<open>
  Claim C2: a resolved list never holds both an \<open>EDIT\<close> and an
  \<open>EDIT_HOVER_TIMELINE\<close> descriptor. This holds for \<open>getActionButtons\<close> whatever its
  free variables are bound to (also if \<open>transformedAsset\<close> had a value), and so for every
  list the component resolves.
\<close>

theorem edit_kinds_mutually_exclusive:
  "(getActionButtons s single hover r it asset = Inr bs \<longrightarrow>
      \<not> (EDIT \<in> set (kinds bs) \<and> EDIT_HOVER_TIMELINE \<in> set (kinds bs)))
   \<and> (actionButtons h p = Inr bs' \<longrightarrow>
      \<not> (EDIT \<in> set (kinds bs') \<and> EDIT_HOVER_TIMELINE \<in> set (kinds bs')))"
proof -
  have "\<not> (EDIT \<in> set (kinds bs') \<and> EDIT_HOVER_TIMELINE \<in> set (kinds bs'))"
    if "actionButtons h p = Inr bs'"
  proof (cases "item p")
    case None
    with that show ?thesis by (simp add: actionButtons_def)
  next
    case (Some x)
    with that show ?thesis
      using getActionButtons_exclusive by (fastforce simp: actionButtons_def Let_def)
  qed
  moreover have "\<not> (EDIT \<in> set (kinds bs) \<and> EDIT_HOVER_TIMELINE \<in> set (kinds bs))"
    if "getActionButtons s single hover r it asset = Inr bs"
    using that by (rule getActionButtons_exclusive)
  ultimately show ?thesis by blast
qed

theorem edit_kinds_mutually_exclusive_witness:
  "actionButtons \<lparr>useConfig = Some library_enabled, useFeatureFlags = both_flags\<rparr>
     \<lparr>item = Some item_other, editHoverButton = Some single_asset_editor\<rparr> =
     Inr [\<lparr>elem_type = SaveToLibraryButton, key = Some ''save-to-library'',
           props = [(''item'', item_other)]\<rparr>,
          \<lparr>elem_type = single_asset_editor, key = Some ''single-asset-edit'',
           props = [(''item'', item_other)]\<rparr>]
   \<and> getActionButtons True False True None item_other (Inr item_ae) =
     Inr [\<lparr>elem_type = SaveToLibraryButton, key = Some ''save-to-library'',
           props = [(''item'', item_other)]\<rparr>,
          \<lparr>elem_type = EditHoverButton, key = Some ''edit-hover'',
           props = [(''asset'', item_ae)]\<rparr>]
   \<and> \<not> (EDIT \<in> set (kinds
           [\<lparr>elem_type = SaveToLibraryButton, key = Some ''save-to-library'',
              props = [(''item'', item_other)]\<rparr>,
            \<lparr>elem_type = single_asset_editor, key = Some ''single-asset-edit'',
              props = [(''item'', item_other)]\<rparr>])
          \<and> EDIT_HOVER_TIMELINE \<in> set (kinds
           [\<lparr>elem_type = SaveToLibraryButton, key = Some ''save-to-library'',
              props = [(''item'', item_other)]\<rparr>,
            \<lparr>elem_type = single_asset_editor, key = Some ''single-asset-edit'',
              props = [(''item'', item_other)]\<rparr>]))
   \<and> \<not> (EDIT \<in> set (kinds
           [\<lparr>elem_type = SaveToLibraryButton, key = Some ''save-to-library'',
              props = [(''item'', item_other)]\<rparr>,
            \<lparr>elem_type = EditHoverButton, key = Some ''edit-hover'',
              props = [(''asset'', item_ae)]\<rparr>])
          \<and> EDIT_HOVER_TIMELINE \<in> set (kinds
           [\<lparr>elem_type = SaveToLibraryButton, key = Some ''save-to-library'',
              props = [(''item'', item_other)]\<rparr>,
            \<lparr>elem_type = EditHoverButton, key = Some ''edit-hover'',
              props = [(''asset'', item_ae)]\<rparr>]))"
proof -
  let ?h = "\<lparr>useConfig = Some library_enabled, useFeatureFlags = both_flags\<rparr>"
  let ?p = "\<lparr>item = Some item_other, editHoverButton = Some single_asset_editor\<rparr>"
  let ?edit = "[\<lparr>elem_type = SaveToLibraryButton, key = Some ''save-to-library'',
                  props = [(''item'', item_other)]\<rparr>,
                \<lparr>elem_type = single_asset_editor, key = Some ''single-asset-edit'',
                  props = [(''item'', item_other)]\<rparr>]"
  let ?hover = "[\<lparr>elem_type = SaveToLibraryButton, key = Some ''save-to-library'',
                   props = [(''item'', item_other)]\<rparr>,
                 \<lparr>elem_type = EditHoverButton, key = Some ''edit-hover'',
                   props = [(''asset'', item_ae)]\<rparr>]"
  have a: "actionButtons ?h ?p = Inr ?edit"
    by (simp add: actionButtons_def getActionButtons_def flag_enabled_def both_flags_def
        flag_on_def showSaveToLibraryButton_def disableLibraryFeatures_or_false_def
        library_enabled_def item_other_def
        isTimelineSingleAssetEditorEnabledFF_id_def isEditHoverButtonInTimelineEnabledFF_id_def)
  have g: "getActionButtons True False True None item_other (Inr item_ae) = Inr ?hover"
    by (simp add: getActionButtons_def)
  note w = edit_kinds_mutually_exclusive
    [where s = True and single = False and hover = True and r = None and it = item_other
       and asset = "Inr item_ae" and bs = ?hover and h = ?h and p = ?p and bs' = ?edit]
  from w a have 1: "\<not> (EDIT \<in> set (kinds ?edit) \<and> EDIT_HOVER_TIMELINE \<in> set (kinds ?edit))"
    by blast
  from w g have 2: "\<not> (EDIT \<in> set (kinds ?hover) \<and> EDIT_HOVER_TIMELINE \<in> set (kinds ?hover))"
    by blast
  from a g 1 2 show ?thesis by blast
qed

subsection \<open>The single-asset editor\<close>

text \<open>
  Claim C3: when the flag \<open>timeline-single-asset-editor\<close> is set and the caller passes an
  editor component, the resolver appends an \<open>EDIT\<close> descriptor rendered by that component
  and no \<open>EDIT_HOVER_TIMELINE\<close> descriptor, whatever the hover flag says; for a save-eligible
  item (library features enabled, type \<open>OTHER\<close>) the result is
  \<open>[SAVE_TO_LIBRARY, EDIT]\<close>.
\<close>

theorem single_asset_editor_takes_priority:
  assumes "flag_enabled (useFeatureFlags h) isTimelineSingleAssetEditorEnabledFF_id"
    and "editHoverButton p = Some c"
    and "item p = Some it"
  shows "actionButtons h p =
           Inr ((if showSaveToLibraryButton (useConfig h) it
                 then [\<lparr>elem_type = SaveToLibraryButton, key = Some ''save-to-library'',
                         props = [(''item'', it)]\<rparr>]
                 else [])
                @ [\<lparr>elem_type = c, key = Some ''single-asset-edit'', props = [(''item'', it)]\<rparr>])
         \<and> resolved_kinds h p =
           Inr ((if saveEligible (disableLibraryFeatures_or_false (useConfig h)) (templateTypeId it)
                 then [SAVE_TO_LIBRARY] else []) @ [EDIT])
         \<and> (useConfig h = Some library_enabled \<and> templateTypeId it = OTHER \<longrightarrow>
              resolved_kinds h p = Inr [SAVE_TO_LIBRARY, EDIT])"
proof -
  have a: "actionButtons h p =
           Inr ((if showSaveToLibraryButton (useConfig h) it
                 then [\<lparr>elem_type = SaveToLibraryButton, key = Some ''save-to-library'',
                         props = [(''item'', it)]\<rparr>]
                 else [])
                @ [\<lparr>elem_type = c, key = Some ''single-asset-edit'', props = [(''item'', it)]\<rparr>])"
    using assms by (simp add: actionButtons_def getActionButtons_def Let_def)
  have b: "resolved_kinds h p =
           Inr ((if saveEligible (disableLibraryFeatures_or_false (useConfig h)) (templateTypeId it)
                 then [SAVE_TO_LIBRARY] else []) @ [EDIT])"
    by (simp add: resolved_kinds_def a kind_of_def showSaveToLibraryButton_iff)
  have c: "resolved_kinds h p = Inr [SAVE_TO_LIBRARY, EDIT]"
    if "useConfig h = Some library_enabled" "templateTypeId it = OTHER"
    using that by (simp add: b saveEligible_def disableLibraryFeatures_or_false_def library_enabled_def)
  from a b c show ?thesis by blast
qed

theorem single_asset_editor_takes_priority_witness:
  "resolved_kinds \<lparr>useConfig = Some library_enabled, useFeatureFlags = both_flags\<rparr>
     \<lparr>item = Some item_other, editHoverButton = Some single_asset_editor\<rparr> = Inr [SAVE_TO_LIBRARY, EDIT]
   \<and> actionButtons \<lparr>useConfig = Some library_enabled, useFeatureFlags = both_flags\<rparr>
     \<lparr>item = Some item_other, editHoverButton = Some single_asset_editor\<rparr> =
     Inr [\<lparr>elem_type = SaveToLibraryButton, key = Some ''save-to-library'', props = [(''item'', item_other)]\<rparr>,
          \<lparr>elem_type = single_asset_editor, key = Some ''single-asset-edit'', props = [(''item'', item_other)]\<rparr>]"
  using single_asset_editor_takes_priority [of "\<lparr>useConfig = Some library_enabled, useFeatureFlags = both_flags\<rparr>"
      "\<lparr>item = Some item_other, editHoverButton = Some single_asset_editor\<rparr>"
      single_asset_editor item_other]
  by (simp add: flag_enabled_def both_flags_def flag_on_def item_other_def
      isTimelineSingleAssetEditorEnabledFF_id_def isEditHoverButtonInTimelineEnabledFF_id_def
      showSaveToLibraryButton_def disableLibraryFeatures_or_false_def library_enabled_def
      saveEligible_def)

text \<open>
  Claim C4: when the flag \<open>timeline-single-asset-editor\<close> is set and no editor component
  is passed (\<open>editHoverButton\<close> is \<open>null\<close>), no edit descriptor of either kind is appended,
  whatever the hover flag says; for a save-eligible item the result is
  \<open>[SAVE_TO_LIBRARY]\<close>.
\<close>

theorem no_fallback_without_renderer:
  assumes "flag_enabled (useFeatureFlags h) isTimelineSingleAssetEditorEnabledFF_id"
    and "editHoverButton p = None"
    and "item p = Some it"
  shows "actionButtons h p =
           Inr (if showSaveToLibraryButton (useConfig h) it
                then [\<lparr>elem_type = SaveToLibraryButton, key = Some ''save-to-library'',
                        props = [(''item'', it)]\<rparr>]
                else [])
         \<and> resolved_kinds h p =
           Inr (if saveEligible (disableLibraryFeatures_or_false (useConfig h)) (templateTypeId it)
                then [SAVE_TO_LIBRARY] else [])
         \<and> (useConfig h = Some library_enabled \<and> templateTypeId it = OTHER \<longrightarrow>
              resolved_kinds h p = Inr [SAVE_TO_LIBRARY])"
proof -
  have a: "actionButtons h p =
           Inr (if showSaveToLibraryButton (useConfig h) it
                then [\<lparr>elem_type = SaveToLibraryButton, key = Some ''save-to-library'',
                        props = [(''item'', it)]\<rparr>]
                else [])"
    using assms by (simp add: actionButtons_def getActionButtons_def Let_def)
  have b: "resolved_kinds h p =
           Inr (if saveEligible (disableLibraryFeatures_or_false (useConfig h)) (templateTypeId it)
                then [SAVE_TO_LIBRARY] else [])"
    by (simp add: resolved_kinds_def a kind_of_def showSaveToLibraryButton_iff)
  have c: "resolved_kinds h p = Inr [SAVE_TO_LIBRARY]"
    if "useConfig h = Some library_enabled" "templateTypeId it = OTHER"
    using that by (simp add: b saveEligible_def disableLibraryFeatures_or_false_def library_enabled_def)
  from a b c show ?thesis by blast
qed

theorem no_fallback_without_renderer_witness:
  "resolved_kinds \<lparr>useConfig = Some library_enabled, useFeatureFlags = both_flags\<rparr>
     \<lparr>item = Some item_other, editHoverButton = None\<rparr> = Inr [SAVE_TO_LIBRARY]
   \<and> actionButtons \<lparr>useConfig = Some library_enabled, useFeatureFlags = both_flags\<rparr>
     \<lparr>item = Some item_other, editHoverButton = None\<rparr> =
     Inr [\<lparr>elem_type = SaveToLibraryButton, key = Some ''save-to-library'', props = [(''item'', item_other)]\<rparr>]"
  using no_fallback_without_renderer [of "\<lparr>useConfig = Some library_enabled, useFeatureFlags = both_flags\<rparr>"
      "\<lparr>item = Some item_other, editHoverButton = None\<rparr>" item_other]
  by (simp add: flag_enabled_def both_flags_def flag_on_def item_other_def
      isTimelineSingleAssetEditorEnabledFF_id_def isEditHoverButtonInTimelineEnabledFF_id_def
      showSaveToLibraryButton_def disableLibraryFeatures_or_false_def library_enabled_def
      saveEligible_def)

subsection \<open>No flag set\<close>

text \<open>
  Claim C5 says that with neither flag set a plain \<open>EDIT\<close> descriptor is appended, so that
  scenario A resolves to \<open>[SAVE_TO_LIBRARY, EDIT]\<close> and scenario E to \<open>[EDIT]\<close>. The
  function has no such branch: scenario A resolves to \<open>[SAVE_TO_LIBRARY]\<close> alone.
\<close>

theorem baseline_edit_counterexample:
  "resolved_kinds \<lparr>useConfig = Some library_enabled, useFeatureFlags = no_flags\<rparr>
     \<lparr>item = Some item_other, editHoverButton = None\<rparr> \<noteq> Inr [SAVE_TO_LIBRARY, EDIT]"
  by (simp add: resolved_kinds_def scenario_A_buttons kind_of_def)

text \<open>
  Claim C5 as amended: with neither flag set and an item given, no edit descriptor of
  either kind is appended; the result is the save button alone for a save-eligible item and
  the empty list otherwise. Scenario A resolves to \<open>[SAVE_TO_LIBRARY]\<close>, scenario E to the
  empty list, for which the component renders \<open>null\<close>.
\<close>

theorem no_edit_without_flags:
  "(\<not> flag_enabled (useFeatureFlags h) isTimelineSingleAssetEditorEnabledFF_id
      \<and> \<not> flag_enabled (useFeatureFlags h) isEditHoverButtonInTimelineEnabledFF_id
      \<and> item p = Some it \<longrightarrow>
      actionButtons h p =
        Inr (if showSaveToLibraryButton (useConfig h) it
             then [\<lparr>elem_type = SaveToLibraryButton, key = Some ''save-to-library'',
                     props = [(''item'', it)]\<rparr>]
             else [])
      \<and> resolved_kinds h p =
        Inr (if saveEligible (disableLibraryFeatures_or_false (useConfig h)) (templateTypeId it)
             then [SAVE_TO_LIBRARY] else []))
   \<and> resolved_kinds \<lparr>useConfig = Some library_enabled, useFeatureFlags = no_flags\<rparr>
        \<lparr>item = Some item_other, editHoverButton = None\<rparr> = Inr [SAVE_TO_LIBRARY]
   \<and> resolved_kinds \<lparr>useConfig = Some library_disabled, useFeatureFlags = no_flags\<rparr>
        \<lparr>item = Some item_ae, editHoverButton = None\<rparr> = Inr []
   \<and> CurrentQuickActionsMenu \<lparr>useConfig = Some library_disabled, useFeatureFlags = no_flags\<rparr>
        \<lparr>item = Some item_ae, editHoverButton = None\<rparr> = Inr None"
proof -
  have a: "actionButtons h p =
        Inr (if showSaveToLibraryButton (useConfig h) it
             then [\<lparr>elem_type = SaveToLibraryButton, key = Some ''save-to-library'',
                     props = [(''item'', it)]\<rparr>]
             else [])"
    if "\<not> flag_enabled (useFeatureFlags h) isTimelineSingleAssetEditorEnabledFF_id"
      "\<not> flag_enabled (useFeatureFlags h) isEditHoverButtonInTimelineEnabledFF_id"
      "item p = Some it"
    using that by (simp add: actionButtons_def getActionButtons_def Let_def)
  have b: "resolved_kinds h p =
        Inr (if saveEligible (disableLibraryFeatures_or_false (useConfig h)) (templateTypeId it)
             then [SAVE_TO_LIBRARY] else [])"
    if "\<not> flag_enabled (useFeatureFlags h) isTimelineSingleAssetEditorEnabledFF_id"
      "\<not> flag_enabled (useFeatureFlags h) isEditHoverButtonInTimelineEnabledFF_id"
      "item p = Some it"
    using a [OF that] by (simp add: resolved_kinds_def kind_of_def showSaveToLibraryButton_iff)
  have c: "resolved_kinds \<lparr>useConfig = Some library_enabled, useFeatureFlags = no_flags\<rparr>
        \<lparr>item = Some item_other, editHoverButton = None\<rparr> = Inr [SAVE_TO_LIBRARY]"
    by (simp add: resolved_kinds_def scenario_A_buttons kind_of_def)
  have d: "resolved_kinds \<lparr>useConfig = Some library_disabled, useFeatureFlags = no_flags\<rparr>
        \<lparr>item = Some item_ae, editHoverButton = None\<rparr> = Inr []"
    by (simp add: resolved_kinds_def scenario_E_buttons)
  have e: "CurrentQuickActionsMenu \<lparr>useConfig = Some library_disabled, useFeatureFlags = no_flags\<rparr>
        \<lparr>item = Some item_ae, editHoverButton = None\<rparr> = Inr None"
    by (simp add: CurrentQuickActionsMenu_def scenario_E_buttons)
  from a b c d e show ?thesis by blast
qed

theorem no_edit_without_flags_witness:
  "actionButtons \<lparr>useConfig = None, useFeatureFlags = [isEditHoverButtonInTimelineEnabledFF_id \<mapsto> flag_off]\<rparr>
     \<lparr>item = Some \<lparr>templateTypeId = Unrecognized 3\<rparr>, editHoverButton = Some single_asset_editor\<rparr> =
     Inr [\<lparr>elem_type = SaveToLibraryButton, key = Some ''save-to-library'',
           props = [(''item'', \<lparr>templateTypeId = Unrecognized 3\<rparr>)]\<rparr>]
   \<and> resolved_kinds \<lparr>useConfig = None, useFeatureFlags = [isEditHoverButtonInTimelineEnabledFF_id \<mapsto> flag_off]\<rparr>
     \<lparr>item = Some \<lparr>templateTypeId = Unrecognized 3\<rparr>, editHoverButton = Some single_asset_editor\<rparr> =
     Inr [SAVE_TO_LIBRARY]"
  using no_edit_without_flags [of "\<lparr>useConfig = None, useFeatureFlags = [isEditHoverButtonInTimelineEnabledFF_id \<mapsto> flag_off]\<rparr>"
      "\<lparr>item = Some \<lparr>templateTypeId = Unrecognized 3\<rparr>, editHoverButton = Some single_asset_editor\<rparr>"
      "\<lparr>templateTypeId = Unrecognized 3\<rparr>"]
  by (simp add: flag_enabled_def flag_off_def
      isTimelineSingleAssetEditorEnabledFF_id_def isEditHoverButtonInTimelineEnabledFF_id_def
      showSaveToLibraryButton_def disableLibraryFeatures_or_false_def saveEligible_def)

subsection \<open>The hover branch\<close>

text \<open>
  Claim C6: a \<open>SAVE_TO_LIBRARY\<close> descriptor comes first and the others follow in the order
  they were pushed, so that scenario B (library features enabled, only the hover flag set,
  type \<open>OTHER\<close>) resolves to \<open>[SAVE_TO_LIBRARY, EDIT_HOVER_TIMELINE]\<close>. The order is as
  claimed on every list that is returned (\<open>getActionButtons_save_first\<close>), but scenario B
  returns none: building the hover element raises a \<open>ReferenceError\<close>.
\<close>

theorem scenario_B_raises:
  "actionButtons \<lparr>useConfig = Some library_enabled, useFeatureFlags = hover_flag_only\<rparr>
     \<lparr>item = Some item_other, editHoverButton = None\<rparr> = Inl (ReferenceError ''transformedAsset'')
   \<and> resolved_kinds \<lparr>useConfig = Some library_enabled, useFeatureFlags = hover_flag_only\<rparr>
     \<lparr>item = Some item_other, editHoverButton = None\<rparr> \<noteq> Inr [SAVE_TO_LIBRARY, EDIT_HOVER_TIMELINE]"
  by (simp add: resolved_kinds_def actionButtons_def getActionButtons_def flag_enabled_def
      hover_flag_only_def flag_on_def transformedAsset_def
      isTimelineSingleAssetEditorEnabledFF_id_def isEditHoverButtonInTimelineEnabledFF_id_def)

text \<open>
  Claim C9: with the hover flag set and the single-asset flag not set, the hover branch
  builds its element from the identifier \<open>transformedAsset\<close>, which nothing binds: for
  every item the resolver, and with it the component, raises a \<open>ReferenceError\<close> instead of
  returning a descriptor. The item is not the payload either: were the identifier bound to a
  value \<open>a\<close>, the element would carry \<open>a\<close> as its \<open>asset\<close> prop.
\<close>

theorem hover_branch_unbound_reference:
  assumes "flag_enabled (useFeatureFlags h) isEditHoverButtonInTimelineEnabledFF_id"
    and "\<not> flag_enabled (useFeatureFlags h) isTimelineSingleAssetEditorEnabledFF_id"
    and "item p = Some it"
  shows "actionButtons h p = Inl (ReferenceError ''transformedAsset'')
       \<and> CurrentQuickActionsMenu h p = Inl (ReferenceError ''transformedAsset'')
       \<and> getActionButtons s False True r it (Inr a) =
           Inr ((if s then [\<lparr>elem_type = SaveToLibraryButton, key = Some ''save-to-library'',
                              props = [(''item'', it)]\<rparr>] else [])
                @ [\<lparr>elem_type = EditHoverButton, key = Some ''edit-hover'',
                     props = [(''asset'', a)]\<rparr>])"
proof -
  have a: "actionButtons h p = Inl (ReferenceError ''transformedAsset'')"
    using assms by (simp add: actionButtons_Some getActionButtons_def transformedAsset_def)
  have b: "CurrentQuickActionsMenu h p = Inl (ReferenceError ''transformedAsset'')"
    by (simp add: CurrentQuickActionsMenu_def a)
  have c: "getActionButtons s False True r it (Inr a) =
           Inr ((if s then [\<lparr>elem_type = SaveToLibraryButton, key = Some ''save-to-library'',
                              props = [(''item'', it)]\<rparr>] else [])
                @ [\<lparr>elem_type = EditHoverButton, key = Some ''edit-hover'',
                     props = [(''asset'', a)]\<rparr>])"
    by (simp add: getActionButtons_def)
  from a b c show ?thesis by blast
qed

theorem hover_branch_unbound_reference_witness:
  "actionButtons \<lparr>useConfig = Some library_disabled, useFeatureFlags = hover_flag_only\<rparr>
     \<lparr>item = Some item_ae, editHoverButton = Some single_asset_editor\<rparr>
     = Inl (ReferenceError ''transformedAsset'')
   \<and> CurrentQuickActionsMenu \<lparr>useConfig = Some library_disabled, useFeatureFlags = hover_flag_only\<rparr>
     \<lparr>item = Some item_ae, editHoverButton = Some single_asset_editor\<rparr>
     = Inl (ReferenceError ''transformedAsset'')"
  using hover_branch_unbound_reference [of "\<lparr>useConfig = Some library_disabled, useFeatureFlags = hover_flag_only\<rparr>"
      "\<lparr>item = Some item_ae, editHoverButton = Some single_asset_editor\<rparr>" item_ae]
  by (simp add: flag_enabled_def hover_flag_only_def flag_on_def
      isTimelineSingleAssetEditorEnabledFF_id_def isEditHoverButtonInTimelineEnabledFF_id_def)

subsection \<open>Absent inputs\<close>

text \<open>
  What is absent is read by its default. For an item that is not \<open>null\<close>: a flag whose
  key is missing reads as \<open>false\<close>, and the result is the one for that flag stored with
  value \<open>false\<close>; with the hover key missing the resolver always returns a list, and with no
  flags at all it returns the save button or nothing; a missing configuration behaves as
  \<open>disableLibraryFeatures = false\<close>; an unrecognized \<open>templateTypeId\<close> is not a project
  file. The resolver raises exactly when the hover flag reads true and the single-asset flag
  does not.
\<close>

lemma absent_inputs_default:
  assumes "item p = Some it"
  shows "(useFeatureFlags h fid = None \<longrightarrow>
            \<not> flag_enabled (useFeatureFlags h) fid
            \<and> actionButtons h p =
              actionButtons (h\<lparr>useFeatureFlags := (useFeatureFlags h)(fid \<mapsto> flag_off)\<rparr>) p)
       \<and> (useFeatureFlags h isEditHoverButtonInTimelineEnabledFF_id = None \<longrightarrow>
            (\<exists>bs. actionButtons h p = Inr bs))
       \<and> ((\<exists>e. actionButtons h p = Inl e) \<longleftrightarrow>
            flag_enabled (useFeatureFlags h) isEditHoverButtonInTimelineEnabledFF_id
            \<and> \<not> flag_enabled (useFeatureFlags h) isTimelineSingleAssetEditorEnabledFF_id)
       \<and> (useFeatureFlags h = Map.empty \<longrightarrow>
            actionButtons h p =
              Inr (if showSaveToLibraryButton (useConfig h) it
                   then [\<lparr>elem_type = SaveToLibraryButton, key = Some ''save-to-library'',
                           props = [(''item'', it)]\<rparr>]
                   else []))
       \<and> (useConfig h = None \<longrightarrow>
            \<not> disableLibraryFeatures_or_false (useConfig h)
            \<and> actionButtons h p = actionButtons (h\<lparr>useConfig := Some library_enabled\<rparr>) p)
       \<and> (templateTypeId it = Unrecognized n \<longrightarrow>
            showSaveToLibraryButton (useConfig h) it
              = (\<not> disableLibraryFeatures_or_false (useConfig h)))"
proof -
  have a: "\<not> flag_enabled (useFeatureFlags h) fid" if "useFeatureFlags h fid = None"
    using that by (simp add: flag_enabled_def)
  have b: "actionButtons h p =
      actionButtons (h\<lparr>useFeatureFlags := (useFeatureFlags h)(fid \<mapsto> flag_off)\<rparr>) p"
    if "useFeatureFlags h fid = None"
    using assms that by (simp add: actionButtons_Some flag_enabled_absent_upd)
  have c: "\<exists>bs. actionButtons h p = Inr bs"
    if "useFeatureFlags h isEditHoverButtonInTimelineEnabledFF_id = None"
  proof -
    from that have "\<not> flag_enabled (useFeatureFlags h) isEditHoverButtonInTimelineEnabledFF_id"
      by (simp add: flag_enabled_def)
    then show ?thesis
      using assms by (simp add: actionButtons_Some getActionButtons_no_hover)
  qed
  have d: "actionButtons h p =
      Inr (if showSaveToLibraryButton (useConfig h) it
           then [\<lparr>elem_type = SaveToLibraryButton, key = Some ''save-to-library'',
                   props = [(''item'', it)]\<rparr>]
           else [])"
    if "useFeatureFlags h = Map.empty"
    using assms that by (simp add: actionButtons_Some flag_enabled_def getActionButtons_no_hover)
  have e: "\<not> disableLibraryFeatures_or_false (useConfig h)" if "useConfig h = None"
    using that by (simp add: disableLibraryFeatures_or_false_def)
  have f: "actionButtons h p = actionButtons (h\<lparr>useConfig := Some library_enabled\<rparr>) p"
    if "useConfig h = None"
    using assms that
    by (simp add: actionButtons_Some showSaveToLibraryButton_def
        disableLibraryFeatures_or_false_def library_enabled_def)
  have g: "showSaveToLibraryButton (useConfig h) it
      = (\<not> disableLibraryFeatures_or_false (useConfig h))"
    if "templateTypeId it = Unrecognized n"
    using that by (simp add: showSaveToLibraryButton_def)
  have k: "(\<exists>e. actionButtons h p = Inl e) \<longleftrightarrow>
      flag_enabled (useFeatureFlags h) isEditHoverButtonInTimelineEnabledFF_id
      \<and> \<not> flag_enabled (useFeatureFlags h) isTimelineSingleAssetEditorEnabledFF_id"
    using assms
    by (simp add: actionButtons_Some getActionButtons_def transformedAsset_def
        split: option.splits)
  from a b c d e f g k show ?thesis by blast
qed

text \<open>
  Claim C7: for an item that is not \<open>null\<close> the resolver never raises for absent flag
  keys, an absent configuration or an unrecognized \<open>templateTypeId\<close>; it degrades to a
  result with fewer actions. The code does raise on such an input. With no configuration, an
  unrecognized template type and a flag set that holds the hover flag only, the key of the
  single-asset flag is missing and reads as \<open>false\<close>, so the hover branch is entered, and
  evaluating \<open>transformedAsset\<close> there raises a \<open>ReferenceError\<close>: neither the resolver
  nor the component returns.
\<close>

theorem absent_inputs_raise_in_hover_branch:
  "useConfig \<lparr>useConfig = None, useFeatureFlags = hover_flag_only\<rparr> = None
   \<and> hover_flag_only isTimelineSingleAssetEditorEnabledFF_id = None
   \<and> \<not> flag_enabled hover_flag_only isTimelineSingleAssetEditorEnabledFF_id
   \<and> showSaveToLibraryButton None \<lparr>templateTypeId = Unrecognized 7\<rparr>
   \<and> actionButtons \<lparr>useConfig = None, useFeatureFlags = hover_flag_only\<rparr>
         \<lparr>item = Some \<lparr>templateTypeId = Unrecognized 7\<rparr>, editHoverButton = None\<rparr>
       = Inl (ReferenceError ''transformedAsset'')
   \<and> CurrentQuickActionsMenu \<lparr>useConfig = None, useFeatureFlags = hover_flag_only\<rparr>
         \<lparr>item = Some \<lparr>templateTypeId = Unrecognized 7\<rparr>, editHoverButton = None\<rparr>
       = Inl (ReferenceError ''transformedAsset'')"
  by (simp add: CurrentQuickActionsMenu_def actionButtons_def getActionButtons_def
      flag_enabled_def hover_flag_only_def flag_on_def transformedAsset_def
      showSaveToLibraryButton_def disableLibraryFeatures_or_false_def
      isTimelineSingleAssetEditorEnabledFF_id_def isEditHoverButtonInTimelineEnabledFF_id_def)

subsection \<open>Determinism\<close>

text \<open>
  Within the scope of the file, where \<open>transformedAsset\<close> has no binding, the outcome is
  fixed by what the component is given: it reads the configuration only through
  \<open>disableLibraryFeatures\<close> and the flag set only through the two flags. Two calls that
  agree on these, on the item and on whether an editor component is passed resolve to the
  same kinds in the same order, or raise the same exception.
\<close>

lemma outcome_determined_within_scope:
  assumes "disableLibraryFeatures_or_false (useConfig h) = disableLibraryFeatures_or_false (useConfig h')"
    and "flag_enabled (useFeatureFlags h) isTimelineSingleAssetEditorEnabledFF_id
         = flag_enabled (useFeatureFlags h') isTimelineSingleAssetEditorEnabledFF_id"
    and "flag_enabled (useFeatureFlags h) isEditHoverButtonInTimelineEnabledFF_id
         = flag_enabled (useFeatureFlags h') isEditHoverButtonInTimelineEnabledFF_id"
    and "item p = item p'"
    and "(editHoverButton p = None) = (editHoverButton p' = None)"
  shows "resolved_kinds h p = resolved_kinds h' p'
       \<and> (editHoverButton p = editHoverButton p' \<longrightarrow>
            actionButtons h p = actionButtons h' p'
            \<and> CurrentQuickActionsMenu h p = CurrentQuickActionsMenu h' p')"
proof (cases "item p")
  case None
  with assms(4) show ?thesis
    by (simp add: resolved_kinds_def CurrentQuickActionsMenu_def actionButtons_def)
next
  case (Some it)
  with assms(4) have it': "item p' = Some it" by simp
  have s: "showSaveToLibraryButton (useConfig h) it = showSaveToLibraryButton (useConfig h') it"
    by (simp add: showSaveToLibraryButton_def assms(1))
  have ab: "actionButtons h p = actionButtons h' p'" if "editHoverButton p = editHoverButton p'"
    using that by (simp add: actionButtons_Some [OF Some] actionButtons_Some [OF it'] s assms(2,3))
  have rk: "resolved_kinds h p = resolved_kinds h' p'"
    using assms(5)
    by (cases "editHoverButton p"; cases "editHoverButton p'")
       (simp_all add: resolved_kinds_def actionButtons_Some [OF Some] actionButtons_Some [OF it']
          s assms(2,3) getActionButtons_def kind_of_def transformedAsset_def)
  from ab rk show ?thesis by (simp add: CurrentQuickActionsMenu_def)
qed


subsection \<open>The factory variant\<close>

text \<open>
  The two components compute the same save decision: for every configuration object and
  item, \<open>showSave\<close> equals \<open>showSaveToLibraryButton\<close>, and both are the spec's rule with
  \<open>disableLibraryFeatures\<close> defaulting to \<open>false\<close>. The factory's component renders the
  save button exactly when the decision is true, and so does every list that the current
  component resolves.
\<close>

lemma save_decisions_agree:
  "showSave c it = showSaveToLibraryButton (Some c) it
   \<and> showSave c it =
       saveEligible (case disableLibraryFeatures c of None \<Rightarrow> False | Some b \<Rightarrow> b)
         (templateTypeId it)
   \<and> createQuickActionsComponent (Some c) (Some it) =
       Inr (NDiv ''quick-actions''
         [if showSave c it
          then NElement \<lparr>elem_type = SaveToLibraryButton, key = None, props = [(''item'', it)]\<rparr>
          else NFalse,
          NElement \<lparr>elem_type = EditButton, key = None, props = [(''item'', it)]\<rparr>])
   \<and> (actionButtons \<lparr>useConfig = Some c, useFeatureFlags = flags\<rparr>
         \<lparr>item = Some it, editHoverButton = r\<rparr> = Inr bs \<longrightarrow>
       (SAVE_TO_LIBRARY \<in> set (kinds bs) \<longleftrightarrow> showSave c it))"
proof -
  have a: "showSave c it = showSaveToLibraryButton (Some c) it"
    by (simp add: showSave_def showSaveToLibraryButton_def disableLibraryFeatures_or_false_def)
  have b: "showSave c it =
       saveEligible (case disableLibraryFeatures c of None \<Rightarrow> False | Some b \<Rightarrow> b)
         (templateTypeId it)"
    by (simp add: showSave_def saveEligible_def)
  have d: "createQuickActionsComponent (Some c) (Some it) =
       Inr (NDiv ''quick-actions''
         [if showSave c it
          then NElement \<lparr>elem_type = SaveToLibraryButton, key = None, props = [(''item'', it)]\<rparr>
          else NFalse,
          NElement \<lparr>elem_type = EditButton, key = None, props = [(''item'', it)]\<rparr>])"
    by (simp add: createQuickActionsComponent_def)
  have e: "SAVE_TO_LIBRARY \<in> set (kinds bs) \<longleftrightarrow> showSave c it"
    if "actionButtons \<lparr>useConfig = Some c, useFeatureFlags = flags\<rparr>
         \<lparr>item = Some it, editHoverButton = r\<rparr> = Inr bs"
    using save_descriptor_iff_eligible [OF that, of it]
    by (simp add: b disableLibraryFeatures_or_false_def)
  from a b d e show ?thesis by blast
qed

text \<open>
  Claim C10: for every configuration and item, the component made by
  \<open>createQuickActionsComponent\<close> and \<open>CurrentQuickActionsMenu\<close> both show
  \<open>SAVE_TO_LIBRARY\<close> exactly when library features are not disabled and the item is not a
  project file. The decisions agree, but what is shown does not: with library features
  enabled, an item of type \<open>OTHER\<close> and the hover flag alone set, both decisions are true
  and the factory's component renders the save button, while \<open>CurrentQuickActionsMenu\<close>
  raises in the hover branch and shows nothing.
\<close>

theorem factory_shows_save_where_current_raises:
  "showSave library_enabled item_other
   \<and> showSaveToLibraryButton (Some library_enabled) item_other
   \<and> createQuickActionsComponent (Some library_enabled) (Some item_other) =
       Inr (NDiv ''quick-actions''
         [NElement \<lparr>elem_type = SaveToLibraryButton, key = None,
                    props = [(''item'', item_other)]\<rparr>,
          NElement \<lparr>elem_type = EditButton, key = None,
                    props = [(''item'', item_other)]\<rparr>])
   \<and> CurrentQuickActionsMenu
         \<lparr>useConfig = Some library_enabled, useFeatureFlags = hover_flag_only\<rparr>
         \<lparr>item = Some item_other, editHoverButton = Some single_asset_editor\<rparr>
       = Inl (ReferenceError ''transformedAsset'')"
  by (simp add: createQuickActionsComponent_def showSave_def CurrentQuickActionsMenu_def
      actionButtons_def getActionButtons_def flag_enabled_def hover_flag_only_def flag_on_def
      transformedAsset_def showSaveToLibraryButton_def disableLibraryFeatures_or_false_def
      library_enabled_def item_other_def
      isTimelineSingleAssetEditorEnabledFF_id_def isEditHoverButtonInTimelineEnabledFF_id_def)

end
